theory Spec2Isabelle
  imports Complex_Main "HOL-Library.AList"
begin

section \<open>Python strings\<close>

text \<open>
  A Python \<open>str\<close> is modelled as a \<open>string\<close>: a list of characters with codes 0..255.
  \<open>py_isspace\<close> lists the characters of that range for which \<open>str.isspace\<close> holds;
  \<open>str.strip()\<close> removes them from both ends.
\<close>

definition py_isspace :: "char \<Rightarrow> bool" where
  "py_isspace c = (of_char c \<in> set [9, 10, 11, 12, 13, 28, 29, 30, 31, 32, 133, 160 :: nat])"

definition py_strip :: "string \<Rightarrow> string" where
  "py_strip s = rev (dropWhile py_isspace (rev (dropWhile py_isspace s)))"

definition startswith :: "string \<Rightarrow> string \<Rightarrow> bool" where
  "startswith s p = (take (length p) s = p)"

text \<open>\<open>s[i:-j]\<close> for a string: Python clamps the bounds, so a short string gives the empty one.\<close>

definition py_slice :: "string \<Rightarrow> nat \<Rightarrow> nat \<Rightarrow> string" where
  "py_slice s i j = take (length s - j - i) (drop i s)"

section \<open>The link patterns\<close>

text \<open>
  The three file patterns and the folder pattern all have the shape
  \<open>literal([a-zA-Z0-9-_]+)\<close>. \<open>re.search\<close> returns the leftmost position where the
  literal is followed by at least one character of the class, and group 1 is the longest run
  of class characters there (\<open>+\<close> is greedy and nothing follows the group).
\<close>

definition in_range :: "char \<Rightarrow> char \<Rightarrow> char \<Rightarrow> bool" where
  "in_range lo hi c = ((of_char lo :: nat) \<le> of_char c \<and> (of_char c :: nat) \<le> of_char hi)"

definition id_char :: "char \<Rightarrow> bool" where
  "id_char c = (in_range CHR ''a'' CHR ''z'' c \<or> in_range CHR ''A'' CHR ''Z'' c
     \<or> in_range CHR ''0'' CHR ''9'' c \<or> c = CHR ''-'' \<or> c = CHR ''_'')"

definition re_match_here :: "string \<Rightarrow> string \<Rightarrow> string option" where
  "re_match_here lit s =
     (if startswith s lit
      then (let g = takeWhile id_char (drop (length lit) s) in if g = [] then None else Some g)
      else None)"

fun re_search :: "string \<Rightarrow> string \<Rightarrow> string option" where
  "re_search lit [] = re_match_here lit []"
| "re_search lit (c # cs) =
     (case re_match_here lit (c # cs) of Some g \<Rightarrow> Some g | None \<Rightarrow> re_search lit cs)"

definition extract_folder_id :: "string \<Rightarrow> string" where
  "extract_folder_id folder_link =
     (case re_search ''drive/folders/'' folder_link of Some g \<Rightarrow> g | None \<Rightarrow> '''')"

section \<open>JSON values and Python objects\<close>

text \<open>
  What \<open>json.loads\<close> returns: \<open>None\<close>, a bool, an int, a float, a str, a list or a dict.
  A finite float is the rational number it denotes. A dict is an association list in insertion
  order; \<open>d[k] = v\<close> replaces the value of a key in place or appends a new key.
\<close>

datatype pyfloat = NaN | PosInf | NegInf | Finite rat

datatype json =
    JNull
  | JBool bool
  | JInt int
  | JFloat pyfloat
  | JStr string
  | JArr "json list"
  | JObj "(string \<times> json) list"

datatype py_error = UnboundLocalError | TypeError | AttributeError

text \<open>Python's truth value of an object (\<open>not x\<close> is its negation).\<close>

fun truthy :: "json \<Rightarrow> bool" where
  "truthy JNull = False"
| "truthy (JBool b) = b"
| "truthy (JInt n) = (n \<noteq> 0)"
| "truthy (JFloat f) = (f \<noteq> Finite 0)"
| "truthy (JStr s) = (s \<noteq> [])"
| "truthy (JArr xs) = (xs \<noteq> [])"
| "truthy (JObj d) = (d \<noteq> [])"

definition dict_get :: "(string \<times> json) list \<Rightarrow> string \<Rightarrow> json \<Rightarrow> json" where
  "dict_get d k dflt = (case map_of d k of Some v \<Rightarrow> v | None \<Rightarrow> dflt)"

definition dict_set :: "string \<Rightarrow> json \<Rightarrow> (string \<times> json) list \<Rightarrow> (string \<times> json) list" where
  "dict_set k v d = AList.update k v d"

section \<open>The completion endpoint and the JSON decoder\<close>

text \<open>
  The two instruction templates are fixed texts; the model's answer to a call is an input of
  the program: it either generates a text or the call raises. The JSON decoder is a parameter
  \<open>loads\<close>: \<open>None\<close> stands for \<open>json.JSONDecodeError\<close>.
\<close>

datatype prompt = ParsePrompt | AnalysisPrompt

datatype reply = Generated string | ModelError

type_synonym model = "prompt \<Rightarrow> string \<Rightarrow> string \<Rightarrow> reply"

type_synonym decoder = "string \<Rightarrow> json option"

definition get_gemini_response :: "model \<Rightarrow> prompt \<Rightarrow> string \<Rightarrow> string \<Rightarrow> string" where
  "get_gemini_response m p text jd = (case m p text jd of Generated t \<Rightarrow> t | ModelError \<Rightarrow> [])"

text \<open>
  The fence stripping that \<open>parse_resume\<close> and \<open>analyze_resume\<close> both do:
  \<^verbatim>\<open>response = response.strip()\<close>, then \<^verbatim>\<open>response[7:-3]\<close> when it starts with the fence marker.
\<close>

definition fence_open :: string where
  "fence_open = ''```json''"

definition strip_fence :: "string \<Rightarrow> string" where
  "strip_fence response =
     (let r = py_strip response in if startswith r fence_open then py_slice r 7 3 else r)"

section \<open>Field Parser\<close>

definition required_fields :: "string list" where
  "required_fields = [''Name'', ''Phone'', ''Email'', ''University'', ''YearOfStudy'',
     ''Course'', ''Discipline'', ''CGPA'', ''KeySkills'',
     ''GenAIExperienceScore'', ''AIMLExperienceScore'', ''SupportingInformation'']"

definition sentinel :: json where
  "sentinel = JStr ''Not specified''"

text \<open>
  The validation loop on a dict: \<^verbatim>\<open>field not in parsed_data or not parsed_data[field]\<close>
  decides whether the sentinel is stored.
\<close>

fun fill_fields :: "string list \<Rightarrow> (string \<times> json) list \<Rightarrow> (string \<times> json) list" where
  "fill_fields [] parsed_data = parsed_data"
| "fill_fields (field # fields) parsed_data =
     fill_fields fields
       (if map_of parsed_data field = None \<or> \<not> truthy (dict_get parsed_data field JNull)
        then dict_set field sentinel parsed_data else parsed_data)"

text \<open>
  On a decoded value that is not a dict the first iteration of the loop raises \<open>TypeError\<close>:
  a number, a bool and \<open>None\<close> do not support \<open>in\<close>, and a list or a str supports neither
  \<^verbatim>\<open>parsed_data[field]\<close> with a str key nor the assignment to it.
\<close>

definition validate :: "json \<Rightarrow> py_error + (string \<times> json) list" where
  "validate parsed_data =
     (case parsed_data of JObj d \<Rightarrow> Inr (fill_fields required_fields d) | _ \<Rightarrow> Inl TypeError)"

text \<open>
  \<open>required_fields\<close> is assigned inside the \<open>try\<close> block after \<open>json.loads\<close>, so the handler
  of \<open>JSONDecodeError\<close>, which builds its record from \<open>required_fields\<close>, reads a local variable
  that has no value yet.
\<close>

definition parse_resume :: "decoder \<Rightarrow> model \<Rightarrow> string \<Rightarrow> py_error + (string \<times> json) list" where
  "parse_resume loads m text =
     (let response = strip_fence (get_gemini_response m ParsePrompt text [])
      in case loads response of
           Some parsed_data \<Rightarrow> validate parsed_data
         | None \<Rightarrow> Inl UnboundLocalError)"

section \<open>Match Scorer\<close>

definition error_report :: json where
  "error_report = JObj
     [(''match_percentage'', JInt 0),
      (''matching_keywords'', JArr []),
      (''missing_keywords'', JArr []),
      (''profile_summary'', JStr ''Error analyzing profile''),
      (''recommendations'', JArr [JStr ''Error generating recommendations''])]"

definition analyze_resume :: "decoder \<Rightarrow> model \<Rightarrow> string \<Rightarrow> string \<Rightarrow> json" where
  "analyze_resume loads m text jd =
     (let response = strip_fence (get_gemini_response m AnalysisPrompt text jd)
      in case loads response of Some report \<Rightarrow> report | None \<Rightarrow> error_report)"

section \<open>Text Extractor\<close>

text \<open>
  What the PDF library does with a file is an input: \<open>PdfReader\<close> raises or gives the pages,
  and \<open>extract_text\<close> of a page raises or returns a str (the empty one for a page without
  text), which \<open>str\<close> leaves as it is. An exception anywhere in the loop is caught by
  the one handler around it.
\<close>

datatype page = Extracted string | ExtractError

datatype pdf_file = Unreadable | Document "page list"

fun extract_pages :: "string \<Rightarrow> page list \<Rightarrow> string option" where
  "extract_pages text [] = Some text"
| "extract_pages text (Extracted t # pages) = extract_pages (text @ t) pages"
| "extract_pages text (ExtractError # pages) = None"

definition read_pdf :: "pdf_file \<Rightarrow> string" where
  "read_pdf file =
     (case file of
        Unreadable \<Rightarrow> []
      | Document pages \<Rightarrow> (case extract_pages [] pages of Some text \<Rightarrow> text | None \<Rightarrow> []))"

text \<open>
  The segment that the specification gives a page: its text, and the empty segment for a
  page whose extraction yields nothing.
\<close>

fun page_text :: "page \<Rightarrow> string" where
  "page_text (Extracted t) = t"
| "page_text ExtractError = []"

section \<open>Source Fetcher\<close>

text \<open>
  A submitted file is its display name and its content. The remote storage is an input:
  \<open>download\<close> gives the content of a file id or fails, \<open>listing\<close> gives the
  (id, name) entries of a folder. What the run shows and which remote calls it makes is
  recorded as a list of effects.
\<close>

type_synonym submitted_file = "string \<times> pdf_file"

record drive =
  download :: "string \<Rightarrow> pdf_file option"
  listing :: "string \<Rightarrow> (string \<times> string) list"

datatype effect =
    Warning string
  | Error string
  | Found nat
  | Authenticate
  | ListFolder string
  | Download string

definition patterns :: "string list" where
  "patterns = [''file/d/'', ''id='', ''open?id='']"

text \<open>The loop over the patterns, left with \<open>break\<close> at the first match.\<close>

fun find_file_id :: "string list \<Rightarrow> string \<Rightarrow> string" where
  "find_file_id [] link = []"
| "find_file_id (pat # pats) link =
     (case re_search pat link of Some g \<Rightarrow> g | None \<Rightarrow> find_file_id pats link)"

text \<open>The same in the words of the specification: the first pattern of the list that matches.\<close>

definition first_match :: "string list \<Rightarrow> string \<Rightarrow> string" where
  "first_match pats link =
     (case List.find (\<lambda>pat. re_search pat link \<noteq> None) pats of
        Some pat \<Rightarrow> (case re_search pat link of Some g \<Rightarrow> g | None \<Rightarrow> [])
      | None \<Rightarrow> [])"

definition fetch_link :: "drive \<Rightarrow> string \<Rightarrow> submitted_file list \<times> effect list" where
  "fetch_link d line =
     (let link = py_strip line; file_id = find_file_id patterns link
      in if file_id \<noteq> []
         then (case download d file_id of
                 Some pdf_bytes \<Rightarrow> ([(''resume_'' @ file_id @ ''.pdf'', pdf_bytes)], [Download file_id])
               | None \<Rightarrow>
                   ([], [Download file_id, Error (''Failed to download file from link: '' @ link)]))
         else ([], []))"

fun split_on :: "char \<Rightarrow> string \<Rightarrow> string list" where
  "split_on c [] = [[]]"
| "split_on c (x # xs) =
     (if x = c then [] # split_on c xs
      else (case split_on c xs of w # ws \<Rightarrow> (x # w) # ws | [] \<Rightarrow> [[x]]))"

text \<open>
  Each fetch gives \<open>None\<close> when \<open>main\<close> returns early and the submitted files otherwise.
\<close>

definition fetch_uploaded :: "submitted_file list \<Rightarrow> submitted_file list option \<times> effect list" where
  "fetch_uploaded uploaded_files =
     (if uploaded_files = [] then (None, [Warning ''Please upload at least one PDF file.''])
      else (Some uploaded_files, []))"

definition fetch_links :: "drive \<Rightarrow> string \<Rightarrow> submitted_file list option \<times> effect list" where
  "fetch_links d drive_links =
     (if py_strip drive_links = []
      then (None, [Warning ''Please enter at least one Google Drive file link.''])
      else (let fetched = map (fetch_link d) (split_on CHR 0x0A (py_strip drive_links))
            in (Some (concat (map fst fetched)), Authenticate # concat (map snd fetched))))"

definition fetch_entry :: "drive \<Rightarrow> string \<times> string \<Rightarrow> submitted_file list \<times> effect list" where
  "fetch_entry d fmeta =
     (case download d (fst fmeta) of
        Some pdf_bytes \<Rightarrow> ([(snd fmeta, pdf_bytes)], [Download (fst fmeta)])
      | None \<Rightarrow> ([], [Download (fst fmeta), Error (''Failed to download PDF: '' @ snd fmeta)]))"

definition unable_to_parse :: string where
  "unable_to_parse =
     ''Unable to parse folder ID from link. Make sure it's drive.google.com/drive/folders/<FOLDER_ID>''"

definition fetch_folder :: "drive \<Rightarrow> string \<Rightarrow> submitted_file list option \<times> effect list" where
  "fetch_folder d folder_link =
     (if py_strip folder_link = []
      then (None, [Warning ''Please enter a Google Drive folder link.''])
      else (let folder_id = extract_folder_id (py_strip folder_link)
            in if folder_id = [] then (None, [Warning unable_to_parse])
               else (let pdf_list = listing d folder_id;
                         fetched = map (fetch_entry d) pdf_list
                     in (Some (concat (map fst fetched)),
                         [Authenticate, ListFolder folder_id, Found (length pdf_list)]
                           @ concat (map snd fetched)))))"

definition remote_call :: "effect \<Rightarrow> bool" where
  "remote_call e = (case e of Authenticate \<Rightarrow> True | ListFolder _ \<Rightarrow> True | Download _ \<Rightarrow> True | _ \<Rightarrow> False)"

section \<open>Aggregator\<close>

text \<open>
  \<open>sep.join(x)\<close>: a list of str is joined; a str is iterated character by character and a
  dict by its keys; a list with another element, a number, a bool and \<open>None\<close> raise
  \<open>TypeError\<close>.
\<close>

fun join_strings :: "string \<Rightarrow> string list \<Rightarrow> string" where
  "join_strings sep [] = []"
| "join_strings sep [x] = x"
| "join_strings sep (x # y # ys) = x @ sep @ join_strings sep (y # ys)"

fun as_strings :: "json list \<Rightarrow> string list option" where
  "as_strings [] = Some []"
| "as_strings (JStr s # xs) = (case as_strings xs of Some ss \<Rightarrow> Some (s # ss) | None \<Rightarrow> None)"
| "as_strings (_ # xs) = None"

definition py_join :: "string \<Rightarrow> json \<Rightarrow> py_error + string" where
  "py_join sep x =
     (case x of
        JArr xs \<Rightarrow> (case as_strings xs of Some ss \<Rightarrow> Inr (join_strings sep ss) | None \<Rightarrow> Inl TypeError)
      | JStr s \<Rightarrow> Inr (join_strings sep (map (\<lambda>c. [c]) s))
      | JObj d \<Rightarrow> Inr (join_strings sep (map fst d))
      | _ \<Rightarrow> Inl TypeError)"

text \<open>
  The dict literal passed to \<open>parsed_data.update\<close>: its four values are computed in order,
  and \<open>analysis.get\<close> exists only on a dict.
\<close>

definition match_fields :: "json \<Rightarrow> py_error + (string \<times> json) list" where
  "match_fields analysis =
     (case analysis of
        JObj a \<Rightarrow>
          (case py_join '', '' (dict_get a ''matching_keywords'' (JArr [])) of
             Inl e \<Rightarrow> Inl e
           | Inr matching \<Rightarrow>
          (case py_join '', '' (dict_get a ''missing_keywords'' (JArr [])) of
             Inl e \<Rightarrow> Inl e
           | Inr missing \<Rightarrow>
          (case py_join [CHR 0x0A] (dict_get a ''recommendations'' (JArr [])) of
             Inl e \<Rightarrow> Inl e
           | Inr recommendations \<Rightarrow>
               Inr [(''JDMatchPercentage'', dict_get a ''match_percentage'' (JInt 0)),
                    (''MatchingKeywords'', JStr matching),
                    (''MissingKeywords'', JStr missing),
                    (''Recommendations'', JStr recommendations)])))
      | _ \<Rightarrow> Inl AttributeError)"

definition dict_update :: "(string \<times> json) list \<Rightarrow> (string \<times> json) list \<Rightarrow> (string \<times> json) list" where
  "dict_update d other = foldl (\<lambda>acc kv. dict_set (fst kv) (snd kv) acc) d other"

text \<open>
  One iteration of the loop over the submitted files: \<open>None\<close> when no text was extracted
  (no row), the row otherwise; an exception of the parser or of the merge leaves the loop.
\<close>

definition process_file ::
  "decoder \<Rightarrow> model \<Rightarrow> string \<Rightarrow> submitted_file \<Rightarrow> py_error + (string \<times> json) list option" where
  "process_file loads m jd file_obj =
     (let text = read_pdf (snd file_obj)
      in if text \<noteq> []
         then (case parse_resume loads m text of
                 Inl e \<Rightarrow> Inl e
               | Inr parsed_data \<Rightarrow>
                   if py_strip jd \<noteq> []
                   then (case match_fields (analyze_resume loads m text jd) of
                           Inl e \<Rightarrow> Inl e
                         | Inr flat \<Rightarrow> Inr (Some (dict_update parsed_data flat)))
                   else Inr (Some parsed_data))
         else Inr None)"

fun process_files ::
  "decoder \<Rightarrow> model \<Rightarrow> string \<Rightarrow> submitted_file list \<Rightarrow> py_error + (string \<times> json) list list" where
  "process_files loads m jd [] = Inr []"
| "process_files loads m jd (file_obj # files) =
     (case process_file loads m jd file_obj of
        Inl e \<Rightarrow> Inl e
      | Inr row \<Rightarrow>
          (case process_files loads m jd files of
             Inl e \<Rightarrow> Inl e
           | Inr results \<Rightarrow> Inr ((case row of Some r \<Rightarrow> [r] | None \<Rightarrow> []) @ results)))"

section \<open>Summary metrics\<close>










section \<open>Fixtures for concrete runs\<close>

text \<open>
  A model that gives one reply to the parser's prompt and one to the scorer's, and the
  field of a report (\<open>report[k]\<close>).
\<close>

definition answers :: "reply \<Rightarrow> reply \<Rightarrow> model" where
  "answers parse_reply analysis_reply p text jd =
     (case p of ParsePrompt \<Rightarrow> parse_reply | AnalysisPrompt \<Rightarrow> analysis_reply)"

definition report_field :: "json \<Rightarrow> string \<Rightarrow> json option" where
  "report_field report k = (case report of JObj d \<Rightarrow> map_of d k | _ \<Rightarrow> None)"

text \<open>A number in the range 0 to 100.\<close>

fun percentage_0_100 :: "json \<Rightarrow> bool" where
  "percentage_0_100 (JInt n) = (0 \<le> n \<and> n \<le> 100)"
| "percentage_0_100 (JFloat (Finite r)) = (0 \<le> r \<and> r \<le> 100)"
| "percentage_0_100 _ = False"

section \<open>Fence stripping\<close>

lemma dropWhile_keeps: "s \<noteq> [] \<Longrightarrow> \<not> P (hd s) \<Longrightarrow> dropWhile P s = s"
  by (cases s) auto

lemma py_strip_unchanged:
  "s \<noteq> [] \<Longrightarrow> \<not> py_isspace (hd s) \<Longrightarrow> \<not> py_isspace (last s) \<Longrightarrow> py_strip s = s"
  by (simp add: py_strip_def dropWhile_keeps hd_rev)

lemma strip_fence_fenced: "strip_fence (''```json'' @ s @ ''```'') = s"
proof -
  let ?r = "''```json'' @ s @ ''```''"
  have "py_strip ?r = ?r"
    by (rule py_strip_unchanged) (simp_all add: py_isspace_def)
  moreover have "startswith ?r fence_open"
    by (simp add: startswith_def fence_open_def)
  moreover have "py_slice ?r 7 3 = s"
    by (simp add: py_slice_def)
  ultimately show ?thesis
    by (simp add: strip_fence_def)
qed

lemma get_gemini_response_answers:
  "get_gemini_response (answers pr ar) ParsePrompt text jd =
     (case pr of Generated t \<Rightarrow> t | ModelError \<Rightarrow> [])"
  "get_gemini_response (answers pr ar) AnalysisPrompt text jd =
     (case ar of Generated t \<Rightarrow> t | ModelError \<Rightarrow> [])"
  by (simp_all add: get_gemini_response_def answers_def)

text \<open>
  Claim C4. For every text \<open>s\<close>, stripping the fence from the response that wraps \<open>s\<close>
  between the opening marker and three backquotes gives \<open>s\<close> back, so decoding the stripped
  response is decoding \<open>s\<close>, whatever the decoder does; the scorer and the parser, given the
  fenced response, work on the decoding of \<open>s\<close>.
\<close>

theorem fence_left_inverse:
  "strip_fence (''```json'' @ s @ ''```'') = s
   \<and> loads (strip_fence (''```json'' @ s @ ''```'')) = loads s
   \<and> analyze_resume loads (answers pr (Generated (''```json'' @ s @ ''```''))) text jd
       = (case loads s of Some report \<Rightarrow> report | None \<Rightarrow> error_report)
   \<and> parse_resume loads (answers (Generated (''```json'' @ s @ ''```'')) ar) text
       = (case loads s of Some parsed_data \<Rightarrow> validate parsed_data | None \<Rightarrow> Inl UnboundLocalError)"
  using strip_fence_fenced [of s]
  by (simp add: analyze_resume_def parse_resume_def get_gemini_response_answers)

section \<open>Field Parser\<close>

text \<open>
  Claim C1. When the decoding of the parser's response fails, \<open>parse_resume\<close> does not
  return the record of sentinels: the handler reads \<open>required_fields\<close> before it is
  assigned, and the call ends with \<open>UnboundLocalError\<close>. An empty response, which a
  failed model call produces, is such a response.
\<close>

theorem parse_resume_decode_failure:
  "loads (strip_fence (get_gemini_response m ParsePrompt text [])) = None
   \<Longrightarrow> parse_resume loads m text = Inl UnboundLocalError"
  by (simp add: parse_resume_def)

lemma strip_fence_empty: "strip_fence [] = []"
  by (simp add: strip_fence_def py_strip_def startswith_def fence_open_def)

theorem parse_resume_decode_failure_witness:
  "map_of [(''{}'', JObj [])]
     (strip_fence (get_gemini_response (answers ModelError ModelError) ParsePrompt ''John Doe'' [])) = None
   \<and> parse_resume (map_of [(''{}'', JObj [])]) (answers ModelError ModelError) ''John Doe''
       = Inl UnboundLocalError"
  using parse_resume_decode_failure
    [of "map_of [(''{}'', JObj [])]" "answers ModelError ModelError" "''John Doe''"]
  by (simp add: get_gemini_response_answers strip_fence_empty)

lemma map_of_fill_fields:
  "map_of (fill_fields fs d) k =
     (if k \<in> set fs \<and> (map_of d k = None \<or> \<not> truthy (dict_get d k JNull))
      then Some sentinel else map_of d k)"
proof (induction fs arbitrary: d)
  case Nil
  then show ?case by simp
next
  case (Cons f fs)
  show ?case
    by (auto simp: Cons.IH dict_set_def update_conv' dict_get_def sentinel_def split: option.splits)
qed

lemma truthy_nonempty: "truthy v \<Longrightarrow> v \<noteq> JStr [] \<and> v \<noteq> JNull \<and> v \<noteq> JArr [] \<and> v \<noteq> JObj []"
  by (cases v) auto

text \<open>
  Claim C2. Every record that \<open>parse_resume\<close> returns has each of the twelve required
  keys with a value that is true in Python's sense, hence not empty; the record comes from a
  decoded dict, and a required key that the dict lacks or holds with a false value has the
  sentinel, every other required key its decoded value.
\<close>

theorem parse_resume_record:
  assumes "parse_resume loads m text = Inr parsed"
  shows "(\<forall>field \<in> set required_fields.
            \<exists>v. map_of parsed field = Some v \<and> truthy v \<and> v \<noteq> JStr [] \<and> v \<noteq> JNull)
         \<and> (\<exists>d. loads (strip_fence (get_gemini_response m ParsePrompt text [])) = Some (JObj d)
               \<and> (\<forall>field \<in> set required_fields.
                     map_of parsed field =
                       (if map_of d field = None \<or> \<not> truthy (dict_get d field JNull)
                        then Some sentinel else map_of d field)))"
proof -
  let ?r = "strip_fence (get_gemini_response m ParsePrompt text [])"
  from assms obtain d where d: "loads ?r = Some (JObj d)" and p: "parsed = fill_fields required_fields d"
    by (auto simp: parse_resume_def validate_def split: option.splits json.splits)
  have filled: "\<forall>field \<in> set required_fields.
          map_of parsed field =
            (if map_of d field = None \<or> \<not> truthy (dict_get d field JNull)
             then Some sentinel else map_of d field)"
    by (simp add: p map_of_fill_fields)
  have "\<exists>v. map_of parsed field = Some v \<and> truthy v \<and> v \<noteq> JStr [] \<and> v \<noteq> JNull"
    if "field \<in> set required_fields" for field
  proof (cases "map_of d field = None \<or> \<not> truthy (dict_get d field JNull)")
    case True
    with filled that have "map_of parsed field = Some sentinel" by simp
    then show ?thesis by (simp add: sentinel_def)
  next
    case False
    then obtain v where v: "map_of d field = Some v" and t: "truthy v"
      by (auto simp: dict_get_def)
    from filled that False v have "map_of parsed field = Some v" by simp
    with t truthy_nonempty [OF t] show ?thesis by simp
  qed
  with d filled show ?thesis by blast
qed

theorem parse_resume_record_witness:
  "parse_resume
     (map_of [(''{\"Name\": \"Ada\", \"Phone\": \"\"}'', JObj [(''Name'', JStr ''Ada''), (''Phone'', JStr [])])])
     (answers (Generated ''{\"Name\": \"Ada\", \"Phone\": \"\"}'') ModelError) ''Ada, 555''
   = Inr [(''Name'', JStr ''Ada''), (''Phone'', JStr ''Not specified''),
          (''Email'', JStr ''Not specified''), (''University'', JStr ''Not specified''),
          (''YearOfStudy'', JStr ''Not specified''), (''Course'', JStr ''Not specified''),
          (''Discipline'', JStr ''Not specified''), (''CGPA'', JStr ''Not specified''),
          (''KeySkills'', JStr ''Not specified''), (''GenAIExperienceScore'', JStr ''Not specified''),
          (''AIMLExperienceScore'', JStr ''Not specified''),
          (''SupportingInformation'', JStr ''Not specified'')]
   \<and> list_all (\<lambda>field.
         \<exists>v. map_of [(''Name'', JStr ''Ada''), (''Phone'', JStr ''Not specified''),
          (''Email'', JStr ''Not specified''), (''University'', JStr ''Not specified''),
          (''YearOfStudy'', JStr ''Not specified''), (''Course'', JStr ''Not specified''),
          (''Discipline'', JStr ''Not specified''), (''CGPA'', JStr ''Not specified''),
          (''KeySkills'', JStr ''Not specified''), (''GenAIExperienceScore'', JStr ''Not specified''),
          (''AIMLExperienceScore'', JStr ''Not specified''),
          (''SupportingInformation'', JStr ''Not specified'')] field = Some v \<and> truthy v)
        required_fields"
proof -
  have run: "parse_resume
     (map_of [(''{\"Name\": \"Ada\", \"Phone\": \"\"}'', JObj [(''Name'', JStr ''Ada''), (''Phone'', JStr [])])])
     (answers (Generated ''{\"Name\": \"Ada\", \"Phone\": \"\"}'') ModelError) ''Ada, 555''
   = Inr [(''Name'', JStr ''Ada''), (''Phone'', JStr ''Not specified''),
          (''Email'', JStr ''Not specified''), (''University'', JStr ''Not specified''),
          (''YearOfStudy'', JStr ''Not specified''), (''Course'', JStr ''Not specified''),
          (''Discipline'', JStr ''Not specified''), (''CGPA'', JStr ''Not specified''),
          (''KeySkills'', JStr ''Not specified''), (''GenAIExperienceScore'', JStr ''Not specified''),
          (''AIMLExperienceScore'', JStr ''Not specified''),
          (''SupportingInformation'', JStr ''Not specified'')]"
    by code_simp
  from parse_resume_record [OF run] run show ?thesis
    unfolding list_all_iff by blast
qed

section \<open>Match Scorer\<close>

lemma report_field_error_report:
  "report_field error_report ''match_percentage'' = Some (JInt 0)"
  "report_field error_report ''matching_keywords'' = Some (JArr [])"
  "report_field error_report ''missing_keywords'' = Some (JArr [])"
  "report_field error_report ''profile_summary'' = Some (JStr ''Error analyzing profile'')"
  "report_field error_report ''recommendations'' = Some (JArr [JStr ''Error generating recommendations''])"
  by (simp_all add: report_field_def error_report_def)

lemma match_fields_error_report:
  "match_fields error_report =
     Inr [(''JDMatchPercentage'', JInt 0), (''MatchingKeywords'', JStr []),
          (''MissingKeywords'', JStr []),
          (''Recommendations'', JStr ''Error generating recommendations'')]"
  by (simp add: match_fields_def error_report_def dict_get_def py_join_def)

text \<open>
  Claim C3, as stated, fails: after a failed model call the response is empty, its decoding
  fails, and the report that \<open>analyze_resume\<close> returns has one recommendation and a
  profile summary that is not empty.
\<close>

theorem analyze_resume_failure_counterexample:
  "map_of [(''{}'', JObj [])]
     (strip_fence (get_gemini_response (answers ModelError ModelError) AnalysisPrompt ''Ada, 555'' ''Python developer'')) = None
   \<and> report_field (analyze_resume (map_of [(''{}'', JObj [])]) (answers ModelError ModelError)
                    ''Ada, 555'' ''Python developer'') ''recommendations''
       \<noteq> Some (JArr [])
   \<and> report_field (analyze_resume (map_of [(''{}'', JObj [])]) (answers ModelError ModelError)
                    ''Ada, 555'' ''Python developer'') ''profile_summary''
       \<noteq> Some (JStr [])"
  by (simp add: analyze_resume_def get_gemini_response_answers strip_fence_empty
      report_field_error_report)

text \<open>
  Claim C3, amended. When the decoding of the scorer's response fails, \<open>analyze_resume\<close>
  returns the report with \<open>match_percentage\<close> 0, no matching and no missing keywords, the
  profile summary "Error analyzing profile" and the single recommendation
  "Error generating recommendations"; merging that report into the row raises nothing.
\<close>

theorem analyze_resume_decode_failure:
  assumes "loads (strip_fence (get_gemini_response m AnalysisPrompt text jd)) = None"
  shows "report_field (analyze_resume loads m text jd) ''match_percentage'' = Some (JInt 0)
       \<and> report_field (analyze_resume loads m text jd) ''matching_keywords'' = Some (JArr [])
       \<and> report_field (analyze_resume loads m text jd) ''missing_keywords'' = Some (JArr [])
       \<and> report_field (analyze_resume loads m text jd) ''profile_summary''
           = Some (JStr ''Error analyzing profile'')
       \<and> report_field (analyze_resume loads m text jd) ''recommendations''
           = Some (JArr [JStr ''Error generating recommendations''])
       \<and> match_fields (analyze_resume loads m text jd)
           = Inr [(''JDMatchPercentage'', JInt 0), (''MatchingKeywords'', JStr []),
                  (''MissingKeywords'', JStr []),
                  (''Recommendations'', JStr ''Error generating recommendations'')]"
proof -
  from assms have "analyze_resume loads m text jd = error_report"
    by (simp add: analyze_resume_def)
  then show ?thesis
    by (simp add: report_field_error_report match_fields_error_report)
qed

theorem analyze_resume_decode_failure_witness:
  "map_of [(''{}'', JObj [])]
     (strip_fence (get_gemini_response (answers ModelError (Generated ''I cannot help with that.''))
        AnalysisPrompt ''Ada, 555'' ''Python developer'')) = None
   \<and> report_field (analyze_resume (map_of [(''{}'', JObj [])])
        (answers ModelError (Generated ''I cannot help with that.'')) ''Ada, 555'' ''Python developer'')
        ''recommendations''
       = Some (JArr [JStr ''Error generating recommendations''])"
proof -
  have h: "map_of [(''{}'', JObj [])]
     (strip_fence (get_gemini_response (answers ModelError (Generated ''I cannot help with that.''))
        AnalysisPrompt ''Ada, 555'' ''Python developer'')) = None"
    by code_simp
  from analyze_resume_decode_failure
         [of "map_of [(''{}'', JObj [])]"
             "answers ModelError (Generated ''I cannot help with that.'')"
             "''Ada, 555''" "''Python developer''", OF h] h
  show ?thesis
    by blast
qed

text \<open>
  Claim C6, as stated, fails: a response whose JSON object gives \<open>match_percentage\<close> 150
  is returned as it is, and 150 is not in the range 0 to 100.
\<close>

theorem match_percentage_counterexample:
  "report_field
     (analyze_resume
        (map_of [(''{\"match_percentage\": 150}'', JObj [(''match_percentage'', JInt 150)])])
        (answers ModelError (Generated ''{\"match_percentage\": 150}''))
        ''Ada, 555'' ''Python developer'')
     ''match_percentage'' = Some (JInt 150)
   \<and> \<not> percentage_0_100 (JInt 150)"
  by code_simp

text \<open>
  Claim C6, amended. When the decoding of the response fails, \<open>match_percentage\<close> is
  exactly 0; when it succeeds, \<open>analyze_resume\<close> returns the decoded value unchanged, so
  \<open>match_percentage\<close> is whatever the model gave.
\<close>

theorem match_percentage_unvalidated:
  "(loads (strip_fence (get_gemini_response m AnalysisPrompt text jd)) = None
      \<longrightarrow> report_field (analyze_resume loads m text jd) ''match_percentage'' = Some (JInt 0)
          \<and> percentage_0_100 (JInt 0))
   \<and> (\<forall>report. loads (strip_fence (get_gemini_response m AnalysisPrompt text jd)) = Some report
      \<longrightarrow> analyze_resume loads m text jd = report)"
  by (simp add: analyze_resume_def report_field_error_report)

theorem match_percentage_unvalidated_witness:
  "(map_of [(''{\"match_percentage\": 85}'', JObj [(''match_percentage'', JInt 85)])]
      (strip_fence (get_gemini_response (answers ModelError ModelError) AnalysisPrompt ''Ada, 555'' ''Python developer'')) = None
    \<and> report_field (analyze_resume
          (map_of [(''{\"match_percentage\": 85}'', JObj [(''match_percentage'', JInt 85)])])
          (answers ModelError ModelError) ''Ada, 555'' ''Python developer'') ''match_percentage''
        = Some (JInt 0))
   \<and> (map_of [(''{\"match_percentage\": 85}'', JObj [(''match_percentage'', JInt 85)])]
      (strip_fence (get_gemini_response (answers ModelError (Generated ''{\"match_percentage\": 85}''))
         AnalysisPrompt ''Ada, 555'' ''Python developer'')) = Some (JObj [(''match_percentage'', JInt 85)])
    \<and> analyze_resume
          (map_of [(''{\"match_percentage\": 85}'', JObj [(''match_percentage'', JInt 85)])])
          (answers ModelError (Generated ''{\"match_percentage\": 85}'')) ''Ada, 555'' ''Python developer''
        = JObj [(''match_percentage'', JInt 85)])"
proof -
  let ?loads = "map_of [(''{\"match_percentage\": 85}'', JObj [(''match_percentage'', JInt 85)])]"
  have h1: "?loads (strip_fence (get_gemini_response (answers ModelError ModelError)
              AnalysisPrompt ''Ada, 555'' ''Python developer'')) = None"
    by code_simp
  have h2: "?loads (strip_fence (get_gemini_response
              (answers ModelError (Generated ''{\"match_percentage\": 85}''))
              AnalysisPrompt ''Ada, 555'' ''Python developer''))
            = Some (JObj [(''match_percentage'', JInt 85)])"
    by code_simp
  from match_percentage_unvalidated
         [of ?loads "answers ModelError ModelError" "''Ada, 555''" "''Python developer''"]
       match_percentage_unvalidated
         [of ?loads "answers ModelError (Generated ''{\"match_percentage\": 85}'')"
             "''Ada, 555''" "''Python developer''"]
       h1 h2
  show ?thesis by blast
qed

section \<open>Text Extractor\<close>

lemma extract_pages_texts:
  "ExtractError \<notin> set pages \<Longrightarrow> extract_pages acc pages = Some (acc @ concat (map page_text pages))"
proof (induction pages arbitrary: acc)
  case Nil
  then show ?case by simp
next
  case (Cons p pages)
  then show ?case by (cases p) auto
qed

lemma extract_pages_error: "ExtractError \<in> set pages \<Longrightarrow> extract_pages acc pages = None"
proof (induction pages arbitrary: acc)
  case Nil
  then show ?case by simp
next
  case (Cons p pages)
  then show ?case by (cases p) auto
qed

text \<open>
  Claim C5, as stated, fails: in a document that opens, with a first page of text, a second
  page whose extraction raises and a third page of text, the unextractable page does not
  contribute an empty segment between the two texts; \<open>read_pdf\<close> returns the empty string.
\<close>

theorem read_pdf_pages_counterexample:
  "read_pdf (Document [Extracted ''Ada '', ExtractError, Extracted ''Lovelace'']) = []
   \<and> concat (map page_text [Extracted ''Ada '', ExtractError, Extracted ''Lovelace''])
       = ''Ada Lovelace''
   \<and> read_pdf (Document [Extracted ''Ada '', ExtractError, Extracted ''Lovelace''])
       \<noteq> concat (map page_text [Extracted ''Ada '', ExtractError, Extracted ''Lovelace''])"
  by (simp add: read_pdf_def)

text \<open>
  Claim C5, amended. For a document that opens and whose pages all return a text,
  \<open>read_pdf\<close> returns the page texts concatenated in page order, a page with the empty text
  contributing an empty segment. When the extraction of any page raises, the one handler
  around the loop discards the text of every page and \<open>read_pdf\<close> returns the empty string,
  as it does for a file that does not open.
\<close>

theorem read_pdf_pages:
  "(ExtractError \<notin> set pages \<longrightarrow> read_pdf (Document pages) = concat (map page_text pages))
   \<and> (ExtractError \<in> set pages \<longrightarrow> read_pdf (Document pages) = [])
   \<and> read_pdf Unreadable = []"
  by (simp add: read_pdf_def extract_pages_texts extract_pages_error)

theorem read_pdf_pages_witness:
  "ExtractError \<notin> set [Extracted ''Ada '', Extracted [], Extracted ''Lovelace'']
   \<and> read_pdf (Document [Extracted ''Ada '', Extracted [], Extracted ''Lovelace'']) = ''Ada Lovelace''
   \<and> ExtractError \<in> set [Extracted ''Ada '', ExtractError, Extracted ''Lovelace'']
   \<and> read_pdf (Document [Extracted ''Ada '', ExtractError, Extracted ''Lovelace'']) = []"
  using read_pdf_pages [of "[Extracted ''Ada '', Extracted [], Extracted ''Lovelace'']"]
    read_pdf_pages [of "[Extracted ''Ada '', ExtractError, Extracted ''Lovelace'']"]
  by simp

section \<open>Source Fetcher\<close>

lemma find_file_id_first_match: "find_file_id pats link = first_match pats link"
  by (induction pats) (auto simp: first_match_def split: option.splits)

lemma re_match_here_nonempty: "re_match_here lit s = Some g \<Longrightarrow> g \<noteq> []"
  by (auto simp: re_match_here_def Let_def split: if_splits)

lemma re_search_nonempty: "re_search lit s = Some g \<Longrightarrow> g \<noteq> []"
  by (induction s) (auto dest: re_match_here_nonempty split: option.splits)

lemma find_file_id_empty_iff:
  "find_file_id pats link = [] \<longleftrightarrow> (\<forall>pat \<in> set pats. re_search pat link = None)"
  by (induction pats) (auto dest: re_search_nonempty split: option.splits)

text \<open>
  Claim C7. The file identifier of a link is the group of the first pattern, in the order
  \<open>file/d/\<close>, \<open>id=\<close>, \<open>open?id=\<close>, that matches; the link
  \<open>https://drive.google.com/file/d/XYZ789/view\<close> gives \<open>XYZ789\<close>; and a line that no
  pattern matches gives no file, no download and no message.
\<close>

theorem file_id_first_match:
  "find_file_id patterns link = first_match patterns link
   \<and> find_file_id patterns ''https://drive.google.com/file/d/XYZ789/view'' = ''XYZ789''
   \<and> ((\<forall>pat \<in> set patterns. re_search pat (py_strip line) = None)
        \<longrightarrow> fetch_link d line = ([], []))"
proof -
  have "find_file_id patterns ''https://drive.google.com/file/d/XYZ789/view'' = ''XYZ789''"
    by code_simp
  moreover have "fetch_link d line = ([], [])"
    if "\<forall>pat \<in> set patterns. re_search pat (py_strip line) = None"
    using that find_file_id_empty_iff [of patterns "py_strip line"]
    by (simp add: fetch_link_def)
  ultimately show ?thesis
    by (simp add: find_file_id_first_match)
qed

theorem file_id_first_match_witness:
  "list_all (\<lambda>pat. re_search pat (py_strip '' see the attachment '') = None) patterns
   \<and> fetch_link \<lparr>download = Map.empty, listing = (\<lambda>folder_id. [])\<rparr> '' see the attachment ''
       = ([], [])"
proof -
  have h: "\<forall>pat \<in> set patterns. re_search pat (py_strip '' see the attachment '') = None"
    by code_simp
  from file_id_first_match
         [of "[]" "'' see the attachment ''" "\<lparr>download = Map.empty, listing = (\<lambda>folder_id. [])\<rparr>"] h
  show ?thesis
    unfolding list_all_iff by blast
qed


lemma startswith_iff: "startswith s p \<longleftrightarrow> (\<exists>t. s = p @ t)"
proof
  assume "startswith s p"
  then have "s = p @ drop (length p) s"
    by (metis append_take_drop_id startswith_def)
  then show "\<exists>t. s = p @ t" ..
next
  assume "\<exists>t. s = p @ t"
  then show "startswith s p" by (auto simp: startswith_def)
qed

lemma takeWhile_empty_iff: "takeWhile P t = [] \<longleftrightarrow> (t = [] \<or> \<not> P (hd t))"
  by (cases t) auto

lemma re_match_here_None_iff:
  "re_match_here lit s = None \<longleftrightarrow> \<not> (\<exists>c post. s = lit @ c # post \<and> id_char c)"
proof (cases "startswith s lit")
  case False
  then show ?thesis
    by (auto simp: re_match_here_def startswith_iff)
next
  case True
  then obtain t where t: "s = lit @ t"
    by (auto simp: startswith_iff)
  have "re_match_here lit s = None \<longleftrightarrow> (t = [] \<or> \<not> id_char (hd t))"
    using True by (simp add: re_match_here_def t Let_def takeWhile_empty_iff)
  also have "\<dots> \<longleftrightarrow> \<not> (\<exists>c post. t = c # post \<and> id_char c)"
    by (cases t) auto
  finally show ?thesis
    by (simp add: t)
qed

lemma re_search_None_iff:
  "re_search lit s = None \<longleftrightarrow> \<not> (\<exists>pre c post. s = pre @ lit @ c # post \<and> id_char c)"
proof (induction s)
  case Nil
  show ?case
    by (simp add: re_match_here_None_iff)
next
  case (Cons x xs)
  have "re_search lit (x # xs) = None
        \<longleftrightarrow> re_match_here lit (x # xs) = None \<and> re_search lit xs = None"
    by (simp split: option.splits)
  also have "\<dots> \<longleftrightarrow> \<not> (\<exists>c post. x # xs = lit @ c # post \<and> id_char c)
                 \<and> \<not> (\<exists>pre c post. xs = pre @ lit @ c # post \<and> id_char c)"
    by (simp only: re_match_here_None_iff Cons.IH)
  also have "\<dots> \<longleftrightarrow> \<not> (\<exists>pre c post. x # xs = pre @ lit @ c # post \<and> id_char c)"
  proof -
    have "(\<exists>pre c post. x # xs = pre @ lit @ c # post \<and> id_char c)
          \<longleftrightarrow> (\<exists>c post. x # xs = lit @ c # post \<and> id_char c)
              \<or> (\<exists>pre c post. xs = pre @ lit @ c # post \<and> id_char c)"
      (is "?L \<longleftrightarrow> ?A \<or> ?B")
    proof
      assume ?L
      then obtain pre c post where e: "x # xs = pre @ lit @ c # post" and c: "id_char c"
        by blast
      show "?A \<or> ?B"
      proof (cases pre)
        case Nil
        with e c show ?thesis by auto
      next
        case (Cons y pre')
        with e have "xs = pre' @ lit @ c # post" by simp
        with c show ?thesis by blast
      qed
    next
      assume "?A \<or> ?B"
      then show ?L
      proof
        assume ?A
        then obtain c post where "x # xs = [] @ lit @ c # post" "id_char c" by auto
        then show ?L by blast
      next
        assume ?B
        then obtain pre c post where "x # xs = (x # pre) @ lit @ c # post" "id_char c" by auto
        then show ?L by blast
      qed
    qed
    then show ?thesis by blast
  qed
  finally show ?case .
qed

lemma py_strip_inside: "\<exists>a b. s = a @ py_strip s @ b"
proof -
  let ?t = "dropWhile py_isspace s"
  have "s = takeWhile py_isspace s @ ?t" by simp
  moreover have "?t = py_strip s @ rev (takeWhile py_isspace (rev ?t))"
    unfolding py_strip_def by (metis rev_append rev_rev_ident takeWhile_dropWhile_id)
  ultimately show ?thesis by metis
qed

lemma no_segment_py_strip:
  assumes "\<not> (\<exists>pre c post. s = pre @ lit @ c # post \<and> id_char c)"
  shows "\<not> (\<exists>pre c post. py_strip s = pre @ lit @ c # post \<and> id_char c)"
proof
  assume "\<exists>pre c post. py_strip s = pre @ lit @ c # post \<and> id_char c"
  then obtain pre c post where e: "py_strip s = pre @ lit @ c # post" and c: "id_char c"
    by blast
  obtain a b where "s = a @ py_strip s @ b"
    using py_strip_inside by blast
  with e have "s = (a @ pre) @ lit @ c # (post @ b)" by simp
  with c assms show False by blast
qed

text \<open>
  Claim C8. \<open>extract_folder_id\<close> gives \<open>ABC123\<close> for
  \<open>https://drive.google.com/drive/folders/ABC123\<close>. For a link in which
  \<open>drive/folders/\<close> is nowhere followed by an identifier character it gives the empty
  string; the folder fetch then returns early without any remote call, and, unless the link is
  blank, with the single warning that the folder id could not be parsed.
\<close>

theorem extract_folder_id_links:
  "extract_folder_id ''https://drive.google.com/drive/folders/ABC123'' = ''ABC123''
   \<and> (\<not> (\<exists>pre c post. folder_link = pre @ ''drive/folders/'' @ c # post \<and> id_char c)
        \<longrightarrow> extract_folder_id folder_link = []
            \<and> fst (fetch_folder d folder_link) = None
            \<and> list_all (\<lambda>e. \<not> remote_call e) (snd (fetch_folder d folder_link))
            \<and> (py_strip folder_link \<noteq> []
                 \<longrightarrow> fetch_folder d folder_link = (None, [Warning unable_to_parse])))"
proof -
  have ex: "extract_folder_id ''https://drive.google.com/drive/folders/ABC123'' = ''ABC123''"
    by code_simp
  have none: "extract_folder_id s = []"
    if "\<not> (\<exists>pre c post. s = pre @ ''drive/folders/'' @ c # post \<and> id_char c)" for s
  proof -
    from that have "re_search ''drive/folders/'' s = None"
      using re_search_None_iff [of "''drive/folders/''" s] by blast
    then show ?thesis by (simp add: extract_folder_id_def)
  qed
  have "extract_folder_id folder_link = []
        \<and> fst (fetch_folder d folder_link) = None
        \<and> list_all (\<lambda>e. \<not> remote_call e) (snd (fetch_folder d folder_link))
        \<and> (py_strip folder_link \<noteq> []
             \<longrightarrow> fetch_folder d folder_link = (None, [Warning unable_to_parse]))"
    if h: "\<not> (\<exists>pre c post. folder_link = pre @ ''drive/folders/'' @ c # post \<and> id_char c)"
  proof -
    have "extract_folder_id (py_strip folder_link) = []"
      by (rule none) (rule no_segment_py_strip [OF h])
    then show ?thesis
      using none [OF h] by (simp add: fetch_folder_def remote_call_def)
  qed
  with ex show ?thesis by blast
qed

theorem extract_folder_id_links_witness:
  "\<not> (\<exists>pre c post. ''https://drive.google.com/file/d/XYZ789/view'' = pre @ ''drive/folders/'' @ c # post
         \<and> id_char c)
   \<and> extract_folder_id ''https://drive.google.com/file/d/XYZ789/view'' = []
   \<and> py_strip ''https://drive.google.com/file/d/XYZ789/view'' \<noteq> []
   \<and> fetch_folder \<lparr>download = Map.empty, listing = (\<lambda>folder_id. [])\<rparr>
        ''https://drive.google.com/file/d/XYZ789/view''
       = (None, [Warning unable_to_parse])"
proof -
  have "re_search ''drive/folders/'' ''https://drive.google.com/file/d/XYZ789/view'' = None"
    by code_simp
  then have h: "\<not> (\<exists>pre c post. ''https://drive.google.com/file/d/XYZ789/view''
                    = pre @ ''drive/folders/'' @ c # post \<and> id_char c)"
    using re_search_None_iff
      [of "''drive/folders/''" "''https://drive.google.com/file/d/XYZ789/view''"]
    by blast
  have n: "py_strip ''https://drive.google.com/file/d/XYZ789/view'' \<noteq> []"
    by code_simp
  from extract_folder_id_links
         [of "''https://drive.google.com/file/d/XYZ789/view''"
             "\<lparr>download = Map.empty, listing = (\<lambda>folder_id. [])\<rparr>"] h n
  show ?thesis by blast
qed

section \<open>Aggregator\<close>

lemma map_of_dict_update: "map_of (dict_update d other) = map_of d ++ map_of (rev other)"
proof (induction other arbitrary: d)
  case Nil
  then show ?case by (simp add: dict_update_def)
next
  case (Cons kv other)
  have "dict_update d (kv # other) = dict_update (dict_set (fst kv) (snd kv) d) other"
    by (simp add: dict_update_def)
  then show ?case
    by (auto simp: Cons.IH dict_set_def update_conv map_of_append map_add_def fun_eq_iff
        split: option.splits)
qed

lemma py_join_no_strings: "py_join sep (JArr []) = Inr []"
  by (simp add: py_join_def)

lemma match_fields_Inr:
  assumes "match_fields analysis = Inr flat"
  shows "\<exists>a matching missing recommendations.
           analysis = JObj a
           \<and> py_join '', '' (dict_get a ''matching_keywords'' (JArr [])) = Inr matching
           \<and> py_join '', '' (dict_get a ''missing_keywords'' (JArr [])) = Inr missing
           \<and> py_join [CHR 0x0A] (dict_get a ''recommendations'' (JArr [])) = Inr recommendations
           \<and> flat = [(''JDMatchPercentage'', dict_get a ''match_percentage'' (JInt 0)),
                      (''MatchingKeywords'', JStr matching),
                      (''MissingKeywords'', JStr missing),
                      (''Recommendations'', JStr recommendations)]"
  using assms unfolding match_fields_def
  by (cases analysis) (auto split: sum.splits)

lemma process_file_row:
  assumes "process_file loads m jd file_obj = Inr (Some row)" and "py_strip jd \<noteq> []"
  shows "\<exists>parsed_data flat.
           parse_resume loads m (read_pdf (snd file_obj)) = Inr parsed_data
           \<and> match_fields (analyze_resume loads m (read_pdf (snd file_obj)) jd) = Inr flat
           \<and> row = dict_update parsed_data flat"
  using assms unfolding process_file_def Let_def
  by (auto split: if_splits sum.splits)

lemma row_match_fields:
  assumes "process_file loads m jd file_obj = Inr (Some row)" and "py_strip jd \<noteq> []"
  shows "\<exists>a matching missing recommendations.
           analyze_resume loads m (read_pdf (snd file_obj)) jd = JObj a
           \<and> py_join '', '' (dict_get a ''matching_keywords'' (JArr [])) = Inr matching
           \<and> py_join '', '' (dict_get a ''missing_keywords'' (JArr [])) = Inr missing
           \<and> py_join [CHR 0x0A] (dict_get a ''recommendations'' (JArr [])) = Inr recommendations
           \<and> map_of row ''JDMatchPercentage'' = Some (dict_get a ''match_percentage'' (JInt 0))
           \<and> map_of row ''MatchingKeywords'' = Some (JStr matching)
           \<and> map_of row ''MissingKeywords'' = Some (JStr missing)
           \<and> map_of row ''Recommendations'' = Some (JStr recommendations)
           \<and> (map_of a ''match_percentage'' = None
                \<longrightarrow> map_of row ''JDMatchPercentage'' = Some (JInt 0))
           \<and> (map_of a ''matching_keywords'' = None
                \<longrightarrow> map_of row ''MatchingKeywords'' = Some (JStr []))
           \<and> (map_of a ''missing_keywords'' = None
                \<longrightarrow> map_of row ''MissingKeywords'' = Some (JStr []))
           \<and> (map_of a ''recommendations'' = None
                \<longrightarrow> map_of row ''Recommendations'' = Some (JStr []))"
proof -
  let ?analysis = "analyze_resume loads m (read_pdf (snd file_obj)) jd"
  from process_file_row [OF assms] obtain parsed_data flat where
    flat: "match_fields ?analysis = Inr flat" and row: "row = dict_update parsed_data flat"
    by blast
  from match_fields_Inr [OF flat] obtain a matching missing recommendations where
    a: "?analysis = JObj a"
    and j1: "py_join '', '' (dict_get a ''matching_keywords'' (JArr [])) = Inr matching"
    and j2: "py_join '', '' (dict_get a ''missing_keywords'' (JArr [])) = Inr missing"
    and j3: "py_join [CHR 0x0A] (dict_get a ''recommendations'' (JArr [])) = Inr recommendations"
    and f: "flat = [(''JDMatchPercentage'', dict_get a ''match_percentage'' (JInt 0)),
                    (''MatchingKeywords'', JStr matching),
                    (''MissingKeywords'', JStr missing),
                    (''Recommendations'', JStr recommendations)]"
    by blast
  have r1: "map_of row ''JDMatchPercentage'' = Some (dict_get a ''match_percentage'' (JInt 0))"
    and r2: "map_of row ''MatchingKeywords'' = Some (JStr matching)"
    and r3: "map_of row ''MissingKeywords'' = Some (JStr missing)"
    and r4: "map_of row ''Recommendations'' = Some (JStr recommendations)"
    by (simp_all add: row f map_of_dict_update)
  have d1: "map_of a ''match_percentage'' = None
              \<longrightarrow> map_of row ''JDMatchPercentage'' = Some (JInt 0)"
    by (simp add: r1 dict_get_def)
  have d2: "map_of a ''matching_keywords'' = None
              \<longrightarrow> map_of row ''MatchingKeywords'' = Some (JStr [])"
    using j1 by (auto simp: r2 dict_get_def py_join_no_strings)
  have d3: "map_of a ''missing_keywords'' = None
              \<longrightarrow> map_of row ''MissingKeywords'' = Some (JStr [])"
    using j2 by (auto simp: r3 dict_get_def py_join_no_strings)
  have d4: "map_of a ''recommendations'' = None
              \<longrightarrow> map_of row ''Recommendations'' = Some (JStr [])"
    using j3 by (auto simp: r4 dict_get_def py_join_no_strings)
  show ?thesis
    by (rule exI [of _ a], rule exI [of _ matching], rule exI [of _ missing],
        rule exI [of _ recommendations], intro conjI)
       (fact a j1 j2 j3 r1 r2 r3 r4 d1 d2 d3 d4)+
qed


lemma as_strings_map_JStr: "as_strings (map JStr ss) = Some ss"
  by (induction ss) simp_all

lemma py_join_key:
  assumes "map_of a k = None \<or> (\<exists>ss. map_of a k = Some (JArr (map JStr ss)))"
  shows "\<exists>joined. py_join sep (dict_get a k (JArr [])) = Inr joined"
  using assms by (auto simp: dict_get_def py_join_def as_strings_map_JStr)

lemma process_file_gives_row:
  assumes "read_pdf (snd file_obj) \<noteq> []" and "py_strip jd \<noteq> []"
    and "parse_resume loads m (read_pdf (snd file_obj)) = Inr parsed_data"
    and "analyze_resume loads m (read_pdf (snd file_obj)) jd = JObj a"
    and "map_of a ''matching_keywords'' = None
         \<or> (\<exists>ss. map_of a ''matching_keywords'' = Some (JArr (map JStr ss)))"
    and "map_of a ''missing_keywords'' = None
         \<or> (\<exists>ss. map_of a ''missing_keywords'' = Some (JArr (map JStr ss)))"
    and "map_of a ''recommendations'' = None
         \<or> (\<exists>ss. map_of a ''recommendations'' = Some (JArr (map JStr ss)))"
  shows "\<exists>row. process_file loads m jd file_obj = Inr (Some row)"
proof -
  from py_join_key [OF assms(5)] obtain matching where
    "py_join '', '' (dict_get a ''matching_keywords'' (JArr [])) = Inr matching" by blast
  moreover from py_join_key [OF assms(6)] obtain missing where
    "py_join '', '' (dict_get a ''missing_keywords'' (JArr [])) = Inr missing" by blast
  moreover from py_join_key [OF assms(7)] obtain recommendations where
    "py_join [CHR 0x0A] (dict_get a ''recommendations'' (JArr [])) = Inr recommendations" by blast
  ultimately have "\<exists>flat. match_fields (JObj a) = Inr flat"
    by (simp add: match_fields_def)
  with assms(1-4) show ?thesis
    by (auto simp: process_file_def)
qed

text \<open>
  Claim C10. With a non-blank job description, a row that the loop produces for a resume has
  the four match fields: the percentage of the report, or 0 when the report lacks the key, and
  the joined keyword and recommendation texts, each empty when the report lacks its key.
  Such a row is produced whenever the parser returned a record and the report is a JSON object
  in which each of the three list keys is absent or holds a list of strings.
\<close>

theorem match_fields_in_row:
  "(process_file loads m jd file_obj = Inr (Some row) \<and> py_strip jd \<noteq> []
      \<longrightarrow> (\<exists>a matching missing recommendations.
             analyze_resume loads m (read_pdf (snd file_obj)) jd = JObj a
           \<and> py_join '', '' (dict_get a ''matching_keywords'' (JArr [])) = Inr matching
           \<and> py_join '', '' (dict_get a ''missing_keywords'' (JArr [])) = Inr missing
           \<and> py_join [CHR 0x0A] (dict_get a ''recommendations'' (JArr [])) = Inr recommendations
           \<and> map_of row ''JDMatchPercentage'' = Some (dict_get a ''match_percentage'' (JInt 0))
           \<and> map_of row ''MatchingKeywords'' = Some (JStr matching)
           \<and> map_of row ''MissingKeywords'' = Some (JStr missing)
           \<and> map_of row ''Recommendations'' = Some (JStr recommendations)
           \<and> (map_of a ''match_percentage'' = None
                \<longrightarrow> map_of row ''JDMatchPercentage'' = Some (JInt 0))
           \<and> (map_of a ''matching_keywords'' = None
                \<longrightarrow> map_of row ''MatchingKeywords'' = Some (JStr []))
           \<and> (map_of a ''missing_keywords'' = None
                \<longrightarrow> map_of row ''MissingKeywords'' = Some (JStr []))
           \<and> (map_of a ''recommendations'' = None
                \<longrightarrow> map_of row ''Recommendations'' = Some (JStr []))))
   \<and> (read_pdf (snd file_obj) \<noteq> [] \<and> py_strip jd \<noteq> []
       \<and> parse_resume loads m (read_pdf (snd file_obj)) = Inr parsed_data
       \<and> analyze_resume loads m (read_pdf (snd file_obj)) jd = JObj a'
       \<and> (map_of a' ''matching_keywords'' = None
            \<or> (\<exists>ss. map_of a' ''matching_keywords'' = Some (JArr (map JStr ss))))
       \<and> (map_of a' ''missing_keywords'' = None
            \<or> (\<exists>ss. map_of a' ''missing_keywords'' = Some (JArr (map JStr ss))))
       \<and> (map_of a' ''recommendations'' = None
            \<or> (\<exists>ss. map_of a' ''recommendations'' = Some (JArr (map JStr ss))))
      \<longrightarrow> (\<exists>row'. process_file loads m jd file_obj = Inr (Some row')))"
  using row_match_fields [of loads m jd file_obj row]
    process_file_gives_row [of file_obj jd loads m parsed_data a']
  by (intro conjI impI; elim conjE) 

theorem match_fields_in_row_witness:
  "py_strip ''Python developer'' \<noteq> []
   \<and> analyze_resume
        (map_of [(''{\"Name\": \"Ada\"}'', JObj [(''Name'', JStr ''Ada'')]), (''{}'', JObj [])])
        (answers (Generated ''{\"Name\": \"Ada\"}'') (Generated ''{}''))
        (read_pdf (snd (''ada.pdf'', Document [Extracted ''Ada, 555''])))
        ''Python developer'' = JObj []
   \<and> (\<exists>row.
        process_file
          (map_of [(''{\"Name\": \"Ada\"}'', JObj [(''Name'', JStr ''Ada'')]), (''{}'', JObj [])])
          (answers (Generated ''{\"Name\": \"Ada\"}'') (Generated ''{}''))
          ''Python developer'' (''ada.pdf'', Document [Extracted ''Ada, 555'']) = Inr (Some row)
        \<and> map_of row ''Name'' = Some (JStr ''Ada'')
        \<and> map_of row ''JDMatchPercentage'' = Some (JInt 0)
        \<and> map_of row ''MatchingKeywords'' = Some (JStr [])
        \<and> map_of row ''MissingKeywords'' = Some (JStr [])
        \<and> map_of row ''Recommendations'' = Some (JStr []))"
proof -
  let ?loads = "map_of [(''{\"Name\": \"Ada\"}'', JObj [(''Name'', JStr ''Ada'')]), (''{}'', JObj [])]"
  let ?m = "answers (Generated ''{\"Name\": \"Ada\"}'') (Generated ''{}'')"
  let ?file = "(''ada.pdf'', Document [Extracted ''Ada, 555''])"
  let ?row = "[(''Name'', JStr ''Ada''), (''Phone'', JStr ''Not specified''),
      (''Email'', JStr ''Not specified''), (''University'', JStr ''Not specified''),
      (''YearOfStudy'', JStr ''Not specified''), (''Course'', JStr ''Not specified''),
      (''Discipline'', JStr ''Not specified''), (''CGPA'', JStr ''Not specified''),
      (''KeySkills'', JStr ''Not specified''), (''GenAIExperienceScore'', JStr ''Not specified''),
      (''AIMLExperienceScore'', JStr ''Not specified''),
      (''SupportingInformation'', JStr ''Not specified''),
      (''JDMatchPercentage'', JInt 0), (''MatchingKeywords'', JStr []),
      (''MissingKeywords'', JStr []), (''Recommendations'', JStr [])]"
  have run: "process_file ?loads ?m ''Python developer'' ?file = Inr (Some ?row)"
    by code_simp
  have jd: "py_strip ''Python developer'' \<noteq> []"
    by code_simp
  have an: "analyze_resume ?loads ?m (read_pdf (snd ?file)) ''Python developer'' = JObj []"
    by code_simp
  from match_fields_in_row [of ?loads ?m "''Python developer''" ?file ?row, THEN conjunct1, rule_format,
      OF conjI [OF run jd]]
  obtain a matching missing recommendations where
    c: "analyze_resume ?loads ?m (read_pdf (snd ?file)) ''Python developer'' = JObj a
           \<and> py_join '', '' (dict_get a ''matching_keywords'' (JArr [])) = Inr matching
           \<and> py_join '', '' (dict_get a ''missing_keywords'' (JArr [])) = Inr missing
           \<and> py_join [CHR 0x0A] (dict_get a ''recommendations'' (JArr [])) = Inr recommendations
           \<and> map_of ?row ''JDMatchPercentage'' = Some (dict_get a ''match_percentage'' (JInt 0))
           \<and> map_of ?row ''MatchingKeywords'' = Some (JStr matching)
           \<and> map_of ?row ''MissingKeywords'' = Some (JStr missing)
           \<and> map_of ?row ''Recommendations'' = Some (JStr recommendations)
           \<and> (map_of a ''match_percentage'' = None
                \<longrightarrow> map_of ?row ''JDMatchPercentage'' = Some (JInt 0))
           \<and> (map_of a ''matching_keywords'' = None
                \<longrightarrow> map_of ?row ''MatchingKeywords'' = Some (JStr []))
           \<and> (map_of a ''missing_keywords'' = None
                \<longrightarrow> map_of ?row ''MissingKeywords'' = Some (JStr []))
           \<and> (map_of a ''recommendations'' = None
                \<longrightarrow> map_of ?row ''Recommendations'' = Some (JStr []))"
    by (elim exE) (rule that)
  from c have a: "analyze_resume ?loads ?m (read_pdf (snd ?file)) ''Python developer'' = JObj a"
    by (rule conjunct1)
  from c have d1: "map_of a ''match_percentage'' = None
              \<longrightarrow> map_of ?row ''JDMatchPercentage'' = Some (JInt 0)"
    by (elim conjE)
  from c have d2: "map_of a ''matching_keywords'' = None
              \<longrightarrow> map_of ?row ''MatchingKeywords'' = Some (JStr [])"
    by (elim conjE)
  from c have d3: "map_of a ''missing_keywords'' = None
              \<longrightarrow> map_of ?row ''MissingKeywords'' = Some (JStr [])"
    by (elim conjE)
  from c have d4: "map_of a ''recommendations'' = None
              \<longrightarrow> map_of ?row ''Recommendations'' = Some (JStr [])"
    by (elim conjE)
  from a an have "a = []" by simp
  then have none: "map_of a k = None" for k by simp
  have "map_of ?row ''Name'' = Some (JStr ''Ada'')"
    by simp
  moreover note d1 [rule_format, OF none] d2 [rule_format, OF none]
    d3 [rule_format, OF none] d4 [rule_format, OF none]
  ultimately have "process_file ?loads ?m ''Python developer'' ?file = Inr (Some ?row)
        \<and> map_of ?row ''Name'' = Some (JStr ''Ada'')
        \<and> map_of ?row ''JDMatchPercentage'' = Some (JInt 0)
        \<and> map_of ?row ''MatchingKeywords'' = Some (JStr [])
        \<and> map_of ?row ''MissingKeywords'' = Some (JStr [])
        \<and> map_of ?row ''Recommendations'' = Some (JStr [])"
    using run by (intro conjI)
  then have "\<exists>row. process_file ?loads ?m ''Python developer'' ?file = Inr (Some row)
        \<and> map_of row ''Name'' = Some (JStr ''Ada'')
        \<and> map_of row ''JDMatchPercentage'' = Some (JInt 0)
        \<and> map_of row ''MatchingKeywords'' = Some (JStr [])
        \<and> map_of row ''MissingKeywords'' = Some (JStr [])
        \<and> map_of row ''Recommendations'' = Some (JStr [])"
    by (intro exI [of _ ?row])
  with jd an show ?thesis
    by (intro conjI)
qed

section \<open>Summary metrics\<close>






end
